theory Spec2Isabelle
  imports Complex_Main "HOL-Library.Word"
begin

section \<open>Data model of SceneManager.cpp\<close>

text \<open>
  The scene manager keeps a fixed array of texture records with a counter of the slots
  in use, a vector of materials, and a pointer to the shader manager. The OpenGL context,
  the image decoder and the shader manager are collaborators outside the file: the model
  records what the scene manager asks of them.
\<close>

subsection \<open>Numbers and vectors\<close>

text \<open>
  \<open>GLuint\<close> is an unsigned 32-bit integer. C++ \<open>float\<close> values are idealised as real
  numbers: rounding is outside the model, and the registries only copy such values.
\<close>

type_synonym GLuint = "32 word"

datatype vec2 = Vec2 real real

datatype vec3 = Vec3 real real real

datatype vec4 = Vec4 real real real real

text \<open>A \<open>glm::mat4\<close> is stored by columns: \<open>Mat4 c0 c1 c2 c3\<close>.\<close>

datatype mat4 = Mat4 vec4 vec4 vec4 vec4

subsection \<open>Failures\<close>

text \<open>
  The source has no exceptions. Two situations have no defined behaviour in C++ and are
  results of their own in the model: indexing \<open>m_textureIDs\<close> outside the array, and
  calling through \<open>m_pShaderManager\<close> when it is \<open>NULL\<close>.
\<close>

datatype error = OutOfBounds | NullPointer

subsection \<open>The shader manager\<close>

text \<open>
  The shader manager is a sink of named uniform values. It is modelled by the list of
  the writes it has received, oldest first; every \<open>set...Value\<close> appends one write.
\<close>

datatype uniform =
    UBool bool
  | UInt int
  | UFloat real
  | UVec2 vec2
  | UVec3 vec3
  | UVec4 vec4
  | UMat4 mat4
  | USampler2D int

type_synonym ShaderManager = "(string \<times> uniform) list"

definition setBoolValue :: "ShaderManager \<Rightarrow> string \<Rightarrow> bool \<Rightarrow> ShaderManager" where
  "setBoolValue sm name v = sm @ [(name, UBool v)]"

definition setIntValue :: "ShaderManager \<Rightarrow> string \<Rightarrow> int \<Rightarrow> ShaderManager" where
  "setIntValue sm name v = sm @ [(name, UInt v)]"

definition setFloatValue :: "ShaderManager \<Rightarrow> string \<Rightarrow> real \<Rightarrow> ShaderManager" where
  "setFloatValue sm name v = sm @ [(name, UFloat v)]"

definition setVec2Value :: "ShaderManager \<Rightarrow> string \<Rightarrow> vec2 \<Rightarrow> ShaderManager" where
  "setVec2Value sm name v = sm @ [(name, UVec2 v)]"

definition setVec3Value :: "ShaderManager \<Rightarrow> string \<Rightarrow> vec3 \<Rightarrow> ShaderManager" where
  "setVec3Value sm name v = sm @ [(name, UVec3 v)]"

definition setVec4Value :: "ShaderManager \<Rightarrow> string \<Rightarrow> vec4 \<Rightarrow> ShaderManager" where
  "setVec4Value sm name v = sm @ [(name, UVec4 v)]"

definition setMat4Value :: "ShaderManager \<Rightarrow> string \<Rightarrow> mat4 \<Rightarrow> ShaderManager" where
  "setMat4Value sm name v = sm @ [(name, UMat4 v)]"

definition setSampler2DValue :: "ShaderManager \<Rightarrow> string \<Rightarrow> int \<Rightarrow> ShaderManager" where
  "setSampler2DValue sm name v = sm @ [(name, USampler2D v)]"

text \<open>The uniform names of the anonymous namespace at the top of the file.\<close>

definition g_ModelName :: string where
  "g_ModelName = ''model''"

definition g_ColorValueName :: string where
  "g_ColorValueName = ''objectColor''"

definition g_TextureValueName :: string where
  "g_TextureValueName = ''objectTexture''"

definition g_UseTextureName :: string where
  "g_UseTextureName = ''bUseTexture''"

definition g_UseLightingName :: string where
  "g_UseLightingName = ''bUseLighting''"

subsection \<open>Calls to OpenGL and to the image decoder\<close>

text \<open>
  The calls the scene manager issues are kept as a trace, oldest first.
  \<open>GlGenTextures n\<close> is a call of \<open>glGenTextures(1, p)\<close> that stored the name \<open>n\<close>
  in \<open>*p\<close>; \<open>GlDeleteTextures n\<close> is a call of \<open>glDeleteTextures(1, p)\<close> with
  \<open>*p = n\<close>, the only call of OpenGL that releases a texture name.
\<close>

datatype tex_format = GL_RGB8_RGB | GL_RGBA8_RGBA

datatype gl_call =
    GlGenTextures GLuint
  | GlDeleteTextures GLuint
  | GlBindTexture GLuint
  | GlTexParameteri string string
  | GlTexImage2D tex_format int int
  | GlGenerateMipmap
  | StbiSetFlipVerticallyOnLoad bool
  | StbiImageFree

text \<open>What \<open>stbi_load\<close> hands back for a file it could decode.\<close>

record stb_image =
  width :: int
  height :: int
  colorChannels :: int

text \<open>
  The collaborators' answers: what the decoder returns for a file name (\<open>None\<close> is the
  null pointer), and the name \<open>glGenTextures\<close> picks, which may depend on every call
  made before.
\<close>

record environment =
  stbi_load :: "string \<Rightarrow> stb_image option"
  gl_fresh_name :: "gl_call list \<Rightarrow> GLuint"

subsection \<open>The scene manager's members\<close>

text \<open>
  The header that declares the two structures is not among the sources; their fields are
  those the functions use. \<open>ID\<close> is unsigned: \<open>CreateGLTexture\<close> assigns a
  \<open>GLuint\<close> to it and \<open>DestroyGLTextures\<close> passes its address to \<open>glGenTextures\<close>.
  The field \<open>tag\<close> of \<open>TEXTURE_INFO\<close> is named \<open>tex_tag\<close> here, to keep it apart
  from the field \<open>tag\<close> of \<open>OBJECT_MATERIAL\<close>; a parameter \<open>tag\<close> is written \<open>tg\<close>.
\<close>

record TEXTURE_INFO =
  ID :: GLuint
  tex_tag :: string

record OBJECT_MATERIAL =
  ambientColor :: vec3
  ambientStrength :: real
  diffuseColor :: vec3
  specularColor :: vec3
  shininess :: real
  tag :: string

text \<open>
  \<open>m_pShaderManager\<close> is \<open>None\<close> for the null pointer. \<open>m_textureIDs\<close> is the
  fixed array; its length is the capacity declared in the header. \<open>gl_trace\<close> is not a
  member: it is the trace of the calls made so far.
\<close>

record SceneManager =
  m_pShaderManager :: "ShaderManager option"
  m_loadedTextures :: int
  m_textureIDs :: "TEXTURE_INFO list"
  m_objectMaterials :: "OBJECT_MATERIAL list"
  gl_trace :: "gl_call list"

section \<open>Texture registry\<close>

subsection \<open>FindTextureID and FindTextureSlot\<close>

text \<open>
  Both loops run while \<open>index < m_loadedTextures\<close> and nothing was found. The
  arguments after the tag are the locals of the source, in its order. The stored
  \<open>GLuint\<close> is converted to the \<open>int\<close> that \<open>FindTextureID\<close> returns.
\<close>

function FindTextureID_loop ::
  "SceneManager \<Rightarrow> string \<Rightarrow> int \<Rightarrow> int \<Rightarrow> bool \<Rightarrow> error + int" where
  "FindTextureID_loop s tg textureID index bFound =
     (if index < m_loadedTextures s \<and> bFound = False then
        (if 0 \<le> index \<and> index < int (length (m_textureIDs s)) then
           (if tex_tag (m_textureIDs s ! nat index) = tg
            then FindTextureID_loop s tg (sint (ID (m_textureIDs s ! nat index))) index True
            else FindTextureID_loop s tg textureID (index + 1) bFound)
         else Inl OutOfBounds)
      else Inr textureID)"
  by pat_completeness auto
termination
  by (relation "measure (\<lambda>(s, tg, textureID, index, bFound).
        if bFound then 0 else Suc (nat (m_loadedTextures s - index)))") auto

definition FindTextureID :: "SceneManager \<Rightarrow> string \<Rightarrow> error + int" where
  "FindTextureID s tg = FindTextureID_loop s tg (- 1) 0 False"

function FindTextureSlot_loop ::
  "SceneManager \<Rightarrow> string \<Rightarrow> int \<Rightarrow> int \<Rightarrow> bool \<Rightarrow> error + int" where
  "FindTextureSlot_loop s tg textureSlot index bFound =
     (if index < m_loadedTextures s \<and> bFound = False then
        (if 0 \<le> index \<and> index < int (length (m_textureIDs s)) then
           (if tex_tag (m_textureIDs s ! nat index) = tg
            then FindTextureSlot_loop s tg index index True
            else FindTextureSlot_loop s tg textureSlot (index + 1) bFound)
         else Inl OutOfBounds)
      else Inr textureSlot)"
  by pat_completeness auto
termination
  by (relation "measure (\<lambda>(s, tg, textureSlot, index, bFound).
        if bFound then 0 else Suc (nat (m_loadedTextures s - index)))") auto

definition FindTextureSlot :: "SceneManager \<Rightarrow> string \<Rightarrow> error + int" where
  "FindTextureSlot s tg = FindTextureSlot_loop s tg (- 1) 0 False"

text \<open>
  The entries in use are those at the indices below \<open>m_loadedTextures\<close>;
  \<open>registered s i tg\<close> says that index \<open>i\<close> is in use and carries the tag.
\<close>

definition registered :: "SceneManager \<Rightarrow> int \<Rightarrow> string \<Rightarrow> bool" where
  "registered s i tg \<longleftrightarrow>
     0 \<le> i \<and> i < m_loadedTextures s \<and> tex_tag (m_textureIDs s ! nat i) = tg"

subsection \<open>CreateGLTexture\<close>

text \<open>
  The decoder's answer and the new texture name come from the environment. The texture
  is generated, bound and configured before the channel count is looked at, so the
  branch for an unsupported count returns \<open>false\<close> with those calls made, the image
  not freed and the texture still bound; the members of the scene manager are untouched
  on that branch. The messages written to \<open>std::cout\<close> are not modelled.
\<close>

definition CreateGLTexture ::
  "environment \<Rightarrow> SceneManager \<Rightarrow> string \<Rightarrow> string \<Rightarrow> error + (bool \<times> SceneManager)" where
  "CreateGLTexture env s filename tg =
     (let s0 = s\<lparr>gl_trace := gl_trace s @ [StbiSetFlipVerticallyOnLoad True]\<rparr> in
      case stbi_load env filename of
        Some img \<Rightarrow>
          (let textureID = gl_fresh_name env (gl_trace s0);
               s1 = s0\<lparr>gl_trace := gl_trace s0 @
                      [GlGenTextures textureID,
                       GlBindTexture textureID,
                       GlTexParameteri ''GL_TEXTURE_WRAP_S'' ''GL_REPEAT'',
                       GlTexParameteri ''GL_TEXTURE_WRAP_T'' ''GL_REPEAT'',
                       GlTexParameteri ''GL_TEXTURE_MIN_FILTER'' ''GL_LINEAR'',
                       GlTexParameteri ''GL_TEXTURE_MAG_FILTER'' ''GL_LINEAR'']\<rparr>
           in case (if colorChannels img = 3 then Some GL_RGB8_RGB
                    else if colorChannels img = 4 then Some GL_RGBA8_RGBA
                    else None) of
                None \<Rightarrow> Inr (False, s1)
              | Some fmt \<Rightarrow>
                  (let s2 = s1\<lparr>gl_trace := gl_trace s1 @
                         [GlTexImage2D fmt (width img) (height img),
                          GlGenerateMipmap,
                          StbiImageFree,
                          GlBindTexture 0]\<rparr>
                   in if 0 \<le> m_loadedTextures s2
                         \<and> m_loadedTextures s2 < int (length (m_textureIDs s2))
                      then Inr (True,
                        s2\<lparr>m_textureIDs := (m_textureIDs s2)
                              [nat (m_loadedTextures s2) :=
                                 \<lparr>ID = textureID, tex_tag = tg\<rparr>],
                           m_loadedTextures := m_loadedTextures s2 + 1\<rparr>)
                      else Inl OutOfBounds))
      | None \<Rightarrow> Inr (False, s0))"

subsection \<open>DestroyGLTextures\<close>

text \<open>
  The loop calls \<open>glGenTextures(1, &m_textureIDs[i].ID)\<close> for every slot in use: each
  call stores a new name over the registered one.
\<close>

function DestroyGLTextures_loop ::
  "environment \<Rightarrow> SceneManager \<Rightarrow> int \<Rightarrow> error + SceneManager" where
  "DestroyGLTextures_loop env s i =
     (if i < m_loadedTextures s then
        (if 0 \<le> i \<and> i < int (length (m_textureIDs s)) then
           (let n = gl_fresh_name env (gl_trace s) in
            DestroyGLTextures_loop env
              (s\<lparr>gl_trace := gl_trace s @ [GlGenTextures n],
                 m_textureIDs := (m_textureIDs s)
                   [nat i := (m_textureIDs s ! nat i)\<lparr>ID := n\<rparr>]\<rparr>)
              (i + 1))
         else Inl OutOfBounds)
      else Inr s)"
  by pat_completeness auto
termination
  by (relation "measure (\<lambda>(env, s, i). nat (m_loadedTextures s - i))") auto

definition DestroyGLTextures :: "environment \<Rightarrow> SceneManager \<Rightarrow> error + SceneManager" where
  "DestroyGLTextures env s = DestroyGLTextures_loop env s 0"

text \<open>
  The texture names a trace leaves allocated: those generated and not deleted since.
\<close>

fun gl_allocated :: "gl_call list \<Rightarrow> GLuint list \<Rightarrow> GLuint list" where
  "gl_allocated [] live = live"
| "gl_allocated (GlGenTextures n # cs) live = gl_allocated cs (live @ [n])"
| "gl_allocated (GlDeleteTextures n # cs) live = gl_allocated cs (removeAll n live)"
| "gl_allocated (c # cs) live = gl_allocated cs live"

section \<open>Material registry\<close>

subsection \<open>FindMaterial\<close>

text \<open>
  \<open>material\<close> is the caller's object, passed by reference: the model returns it with
  the flag. The five fields are copied on a match, the tag is not. The index is compared
  with \<open>size()\<close> as an unsigned value and only counts up from 0. The function returns
  \<open>true\<close> on every path after the test for an empty vector.
\<close>

function FindMaterial_loop ::
  "SceneManager \<Rightarrow> string \<Rightarrow> OBJECT_MATERIAL \<Rightarrow> nat \<Rightarrow> bool \<Rightarrow> OBJECT_MATERIAL" where
  "FindMaterial_loop s tg material index bFound =
     (if index < length (m_objectMaterials s) \<and> bFound = False then
        (if tag (m_objectMaterials s ! index) = tg
         then FindMaterial_loop s tg
                (material\<lparr>ambientColor := ambientColor (m_objectMaterials s ! index),
                          ambientStrength := ambientStrength (m_objectMaterials s ! index),
                          diffuseColor := diffuseColor (m_objectMaterials s ! index),
                          specularColor := specularColor (m_objectMaterials s ! index),
                          shininess := shininess (m_objectMaterials s ! index)\<rparr>)
                index True
         else FindMaterial_loop s tg material (index + 1) bFound)
      else material)"
  by pat_completeness auto
termination
  by (relation "measure (\<lambda>(s, tg, material, index, bFound).
        if bFound then 0 else Suc (length (m_objectMaterials s) - index))") auto

definition FindMaterial ::
  "SceneManager \<Rightarrow> string \<Rightarrow> OBJECT_MATERIAL \<Rightarrow> bool \<times> OBJECT_MATERIAL" where
  "FindMaterial s tg material =
     (if length (m_objectMaterials s) = 0 then (False, material)
      else (True, FindMaterial_loop s tg material 0 False))"

subsection \<open>DefineObjectMaterials\<close>

definition push_back :: "SceneManager \<Rightarrow> OBJECT_MATERIAL \<Rightarrow> SceneManager" where
  "push_back s m = s\<lparr>m_objectMaterials := m_objectMaterials s @ [m]\<rparr>"

text \<open>
  Six materials are appended, each declared without an initialiser. Four of them get
  all six fields; \<open>grassMaterial\<close> and \<open>woodMaterial\<close> get no ambient colour and no
  ambient strength: the arguments \<open>grass0\<close> and \<open>wood0\<close> are what these two objects
  held after their declaration.
\<close>

definition DefineObjectMaterials ::
  "SceneManager \<Rightarrow> OBJECT_MATERIAL \<Rightarrow> OBJECT_MATERIAL \<Rightarrow> SceneManager" where
  "DefineObjectMaterials s grass0 wood0 =
     (let shinyMaterial = \<lparr>ambientColor = Vec3 0.2 0.2 0.2, ambientStrength = 0.4,
            diffuseColor = Vec3 0.3 0.3 0.2, specularColor = Vec3 0.3 0.3 0.3,
            shininess = 12.0, tag = ''shiny''\<rparr>;
          s = push_back s shinyMaterial;
          grassMaterial = grass0\<lparr>diffuseColor := Vec3 0.3 0.3 0.1,
            specularColor := Vec3 0.0 0.0 0.0, shininess := 0.1, tag := ''grass''\<rparr>;
          s = push_back s grassMaterial;
          woodMaterial = wood0\<lparr>diffuseColor := Vec3 0.3 0.3 0.3,
            specularColor := Vec3 0.1 0.1 0.1, shininess := 0.3, tag := ''wood''\<rparr>;
          s = push_back s woodMaterial;
          sunMaterial = \<lparr>ambientColor = Vec3 1.8 1.8 1.8, ambientStrength = 15.0,
            diffuseColor = Vec3 1.0 1.0 1.0, specularColor = Vec3 1.0 1.0 1.0,
            shininess = 15.0, tag = ''sun''\<rparr>;
          s = push_back s sunMaterial;
          roughMaterial = \<lparr>ambientColor = Vec3 0.8 0.8 0.8, ambientStrength = 1.0,
            diffuseColor = Vec3 0.8 0.5 0.3, specularColor = Vec3 0.2 0.2 0.2,
            shininess = 0.5, tag = ''rough''\<rparr>;
          s = push_back s roughMaterial;
          shadeMaterial = \<lparr>ambientColor = Vec3 0.02 0.0 0.0, ambientStrength = 7.0,
            diffuseColor = Vec3 0.08 0.08 0.08, specularColor = Vec3 0.02 0.02 0.02,
            shininess = 0.1, tag = ''shade''\<rparr>
      in push_back s shadeMaterial)"

section \<open>Transform composer\<close>

subsection \<open>The GLM operations used by SetTransformations\<close>

text \<open>
  GLM is a library outside the repository. Its operations are modelled from its
  documentation, on real numbers: the product of a matrix with a column vector and with a
  matrix, \<open>glm::radians\<close> (degrees times \<open>\<pi>/180\<close>), and the builders \<open>glm::scale\<close>,
  \<open>glm::rotate\<close> and \<open>glm::translate\<close> of \<open>glm/gtx/transform.hpp\<close>, which apply the
  builder of \<open>glm/ext/matrix_transform.hpp\<close> to the identity matrix. \<open>glm::rotate\<close>
  normalises the axis and builds the rotation about it by the angle.
\<close>

fun vec4_times :: "vec4 \<Rightarrow> real \<Rightarrow> vec4" where
  "vec4_times (Vec4 x y z w) k = Vec4 (x * k) (y * k) (z * k) (w * k)"

fun vec4_plus :: "vec4 \<Rightarrow> vec4 \<Rightarrow> vec4" where
  "vec4_plus (Vec4 x y z w) (Vec4 x' y' z' w') = Vec4 (x + x') (y + y') (z + z') (w + w')"

fun mat4_times_vec4 :: "mat4 \<Rightarrow> vec4 \<Rightarrow> vec4" where
  "mat4_times_vec4 (Mat4 c0 c1 c2 c3) (Vec4 x y z w) =
     vec4_plus (vec4_plus (vec4_times c0 x) (vec4_times c1 y))
               (vec4_plus (vec4_times c2 z) (vec4_times c3 w))"

fun mat4_times :: "mat4 \<Rightarrow> mat4 \<Rightarrow> mat4" where
  "mat4_times m1 (Mat4 b0 b1 b2 b3) =
     Mat4 (mat4_times_vec4 m1 b0) (mat4_times_vec4 m1 b1)
          (mat4_times_vec4 m1 b2) (mat4_times_vec4 m1 b3)"

definition mat4_identity :: mat4 where
  "mat4_identity = Mat4 (Vec4 1 0 0 0) (Vec4 0 1 0 0) (Vec4 0 0 1 0) (Vec4 0 0 0 1)"

definition glm_radians :: "real \<Rightarrow> real" where
  "glm_radians degrees = degrees * (pi / 180)"

fun glm_scale_ext :: "mat4 \<Rightarrow> vec3 \<Rightarrow> mat4" where
  "glm_scale_ext (Mat4 m0 m1 m2 m3) (Vec3 x y z) =
     Mat4 (vec4_times m0 x) (vec4_times m1 y) (vec4_times m2 z) m3"

definition glm_scale :: "vec3 \<Rightarrow> mat4" where
  "glm_scale v = glm_scale_ext mat4_identity v"

fun glm_translate_ext :: "mat4 \<Rightarrow> vec3 \<Rightarrow> mat4" where
  "glm_translate_ext (Mat4 m0 m1 m2 m3) (Vec3 x y z) =
     Mat4 m0 m1 m2
       (vec4_plus (vec4_plus (vec4_plus (vec4_times m0 x) (vec4_times m1 y))
                             (vec4_times m2 z)) m3)"

definition glm_translate :: "vec3 \<Rightarrow> mat4" where
  "glm_translate v = glm_translate_ext mat4_identity v"

fun glm_normalize :: "vec3 \<Rightarrow> vec3" where
  "glm_normalize (Vec3 x y z) =
     (let k = 1 / sqrt (x * x + y * y + z * z) in Vec3 (x * k) (y * k) (z * k))"

fun glm_rotate_ext :: "mat4 \<Rightarrow> real \<Rightarrow> vec3 \<Rightarrow> mat4" where
  "glm_rotate_ext (Mat4 m0 m1 m2 m3) angle v =
     (let c = cos angle; s = sin angle in
      case glm_normalize v of Vec3 ax ay az \<Rightarrow>
        (let tx = (1 - c) * ax; ty = (1 - c) * ay; tz = (1 - c) * az;
             r00 = c + tx * ax; r01 = tx * ay + s * az; r02 = tx * az - s * ay;
             r10 = ty * ax - s * az; r11 = c + ty * ay; r12 = ty * az + s * ax;
             r20 = tz * ax + s * ay; r21 = tz * ay - s * ax; r22 = c + tz * az
         in Mat4
              (vec4_plus (vec4_plus (vec4_times m0 r00) (vec4_times m1 r01)) (vec4_times m2 r02))
              (vec4_plus (vec4_plus (vec4_times m0 r10) (vec4_times m1 r11)) (vec4_times m2 r12))
              (vec4_plus (vec4_plus (vec4_times m0 r20) (vec4_times m1 r21)) (vec4_times m2 r22))
              m3))"

definition glm_rotate :: "real \<Rightarrow> vec3 \<Rightarrow> mat4" where
  "glm_rotate angle v = glm_rotate_ext mat4_identity angle v"

subsection \<open>SetTransformations\<close>

definition SetTransformations ::
  "SceneManager \<Rightarrow> vec3 \<Rightarrow> real \<Rightarrow> real \<Rightarrow> real \<Rightarrow> vec3 \<Rightarrow> SceneManager" where
  "SetTransformations s scaleXYZ XrotationDegrees YrotationDegrees ZrotationDegrees positionXYZ =
     (let scale = glm_scale scaleXYZ;
          rotationX = glm_rotate (glm_radians XrotationDegrees) (Vec3 1 0 0);
          rotationY = glm_rotate (glm_radians YrotationDegrees) (Vec3 0 1 0);
          rotationZ = glm_rotate (glm_radians ZrotationDegrees) (Vec3 0 0 1);
          translation = glm_translate positionXYZ;
          modelView = mat4_times (mat4_times (mat4_times (mat4_times
                        translation rotationZ) rotationY) rotationX) scale
      in case m_pShaderManager s of
           Some sm \<Rightarrow> s\<lparr>m_pShaderManager := Some (setMat4Value sm g_ModelName modelView)\<rparr>
         | None \<Rightarrow> s)"

text \<open>
  The matrices the specification names, in their textbook form, and the product it
  prescribes: translation, then the rotations about Z, Y and X, then the scale, with the
  angles in radians.
\<close>

definition Scale :: "vec3 \<Rightarrow> mat4" where
  "Scale v = (case v of Vec3 x y z \<Rightarrow>
     Mat4 (Vec4 x 0 0 0) (Vec4 0 y 0 0) (Vec4 0 0 z 0) (Vec4 0 0 0 1))"

definition RotationX :: "real \<Rightarrow> mat4" where
  "RotationX a =
     Mat4 (Vec4 1 0 0 0) (Vec4 0 (cos a) (sin a) 0) (Vec4 0 (- sin a) (cos a) 0) (Vec4 0 0 0 1)"

definition RotationY :: "real \<Rightarrow> mat4" where
  "RotationY a =
     Mat4 (Vec4 (cos a) 0 (- sin a) 0) (Vec4 0 1 0 0) (Vec4 (sin a) 0 (cos a) 0) (Vec4 0 0 0 1)"

definition RotationZ :: "real \<Rightarrow> mat4" where
  "RotationZ a =
     Mat4 (Vec4 (cos a) (sin a) 0 0) (Vec4 (- sin a) (cos a) 0 0) (Vec4 0 0 1 0) (Vec4 0 0 0 1)"

definition Translation :: "vec3 \<Rightarrow> mat4" where
  "Translation v = (case v of Vec3 x y z \<Rightarrow>
     Mat4 (Vec4 1 0 0 0) (Vec4 0 1 0 0) (Vec4 0 0 1 0) (Vec4 x y z 1))"

section \<open>Shader uniform binder\<close>

text \<open>
  \<open>SetShaderColor\<close>, \<open>SetShaderTexture\<close> and \<open>SetTextureUVScale\<close> test the pointer and
  do nothing when it is null; \<open>SetShaderMaterial\<close> and \<open>SetupSceneLights\<close> call through
  it without a test. \<open>setIntValue\<close> receives \<open>false\<close> and \<open>true\<close> as 0 and 1.
\<close>

definition SetShaderColor ::
  "SceneManager \<Rightarrow> real \<Rightarrow> real \<Rightarrow> real \<Rightarrow> real \<Rightarrow> SceneManager" where
  "SetShaderColor s redColorValue greenColorValue blueColorValue alphaValue =
     (let currentColor = Vec4 redColorValue greenColorValue blueColorValue alphaValue in
      case m_pShaderManager s of
        Some sm \<Rightarrow>
          s\<lparr>m_pShaderManager := Some (setVec4Value (setIntValue sm g_UseTextureName 0)
               g_ColorValueName currentColor)\<rparr>
      | None \<Rightarrow> s)"

definition SetShaderTexture :: "SceneManager \<Rightarrow> string \<Rightarrow> error + SceneManager" where
  "SetShaderTexture s textureTag =
     (case m_pShaderManager s of
        Some sm \<Rightarrow>
          (let sm1 = setIntValue sm g_UseTextureName 1 in
           case FindTextureSlot s textureTag of
             Inl e \<Rightarrow> Inl e
           | Inr textureID \<Rightarrow>
               Inr (s\<lparr>m_pShaderManager :=
                      Some (setSampler2DValue sm1 g_TextureValueName textureID)\<rparr>))
      | None \<Rightarrow> Inr s)"

definition SetTextureUVScale :: "SceneManager \<Rightarrow> real \<Rightarrow> real \<Rightarrow> SceneManager" where
  "SetTextureUVScale s u v =
     (case m_pShaderManager s of
        Some sm \<Rightarrow> s\<lparr>m_pShaderManager := Some (setVec2Value sm ''UVscale'' (Vec2 u v))\<rparr>
      | None \<Rightarrow> s)"

text \<open>
  The local \<open>material\<close> of \<open>SetShaderMaterial\<close> is declared without an initialiser:
  the argument \<open>material0\<close> is what it holds before \<open>FindMaterial\<close> is called.
\<close>

definition SetShaderMaterial ::
  "SceneManager \<Rightarrow> OBJECT_MATERIAL \<Rightarrow> string \<Rightarrow> error + SceneManager" where
  "SetShaderMaterial s material0 materialTag =
     (if length (m_objectMaterials s) > 0 then
        (case FindMaterial s materialTag material0 of
           (bReturn, material) \<Rightarrow>
             if bReturn = True then
               (case m_pShaderManager s of
                  Some sm \<Rightarrow>
                    Inr (s\<lparr>m_pShaderManager := Some (foldl (\<lambda>sm call. call sm) sm
                      [\<lambda>sm. setVec3Value sm ''material.ambientColor'' (ambientColor material),
                       \<lambda>sm. setFloatValue sm ''material.ambientStrength'' (ambientStrength material),
                       \<lambda>sm. setVec3Value sm ''material.diffuseColor'' (diffuseColor material),
                       \<lambda>sm. setVec3Value sm ''material.specularColor'' (specularColor material),
                       \<lambda>sm. setFloatValue sm ''material.shininess'' (shininess material)])\<rparr>)
                | None \<Rightarrow> Inl NullPointer)
             else Inr s)
      else Inr s)"

section \<open>Light setup\<close>

definition SetupSceneLights_calls :: "(ShaderManager \<Rightarrow> ShaderManager) list" where
  "SetupSceneLights_calls =
     [\<lambda>sm. setBoolValue sm g_UseLightingName True,
      \<lambda>sm. setVec3Value sm ''globalAmbientColor'' (Vec3 0.20 0.20 0.00),
      \<lambda>sm. setVec3Value sm ''lightSources[0].position'' (Vec3 35.0 32.0 (- 1.0)),
      \<lambda>sm. setVec3Value sm ''lightSorces[0].ambientColor'' (Vec3 1.5 1.5 0.0),
      \<lambda>sm. setVec3Value sm ''lightSources[0].diffuseColor'' (Vec3 2.8 2.8 2.8),
      \<lambda>sm. setVec3Value sm ''lightSources[0].specularColor'' (Vec3 5.5 5.5 5.5),
      \<lambda>sm. setFloatValue sm ''lightSources[0].focalStrength'' 10.0,
      \<lambda>sm. setFloatValue sm ''lightSources[0].specularIntensity'' 2.5,
      \<lambda>sm. setVec3Value sm ''lightSources[1].position'' (Vec3 19.8 18.0 (- 9.5)),
      \<lambda>sm. setVec3Value sm ''lightSources[1].ambientColor'' (Vec3 0.1 0.1 0.1),
      \<lambda>sm. setVec3Value sm ''lightSources[1].diffuseColor'' (Vec3 0.0 0.0 0.0),
      \<lambda>sm. setVec3Value sm ''lightSources[1].specularColor'' (Vec3 0.1 0.1 0.1),
      \<lambda>sm. setFloatValue sm ''lightSources[1].focalStrength'' 0.1,
      \<lambda>sm. setFloatValue sm ''lightSources[1].specularIntensity'' 0.1,
      \<lambda>sm. setVec3Value sm ''lightSources[2].position'' (Vec3 0.0 10.0 0.0),
      \<lambda>sm. setVec3Value sm ''lightSources[2].diffuseColor'' (Vec3 0.6 0.6 0.6),
      \<lambda>sm. setVec3Value sm ''lightSources[2].specularColor'' (Vec3 0.0 0.0 0.0),
      \<lambda>sm. setFloatValue sm ''lightSources[2].focalStrength'' 2.0,
      \<lambda>sm. setFloatValue sm ''lightSources[2].specularIntensity'' 3.0,
      \<lambda>sm. setVec3Value sm ''lightSources[3].position'' (Vec3 (- 4.0) 6.0 0.0),
      \<lambda>sm. setVec3Value sm ''lightSources[3].diffuseColor'' (Vec3 0.0 0.0 0.0),
      \<lambda>sm. setVec3Value sm ''lightSources[3].specularColor'' (Vec3 0.4 0.4 0.4),
      \<lambda>sm. setFloatValue sm ''lightSources[3].focalStrength'' 5.0,
      \<lambda>sm. setFloatValue sm ''lightSources[3].specularIntensity'' 1.8]"

definition SetupSceneLights :: "SceneManager \<Rightarrow> error + SceneManager" where
  "SetupSceneLights s =
     (case m_pShaderManager s of
        Some sm \<Rightarrow>
          Inr (s\<lparr>m_pShaderManager := Some (foldl (\<lambda>sm call. call sm) sm SetupSceneLights_calls)\<rparr>)
      | None \<Rightarrow> Inl NullPointer)"

section \<open>Notions used in the statements\<close>

text \<open>
  \<open>first_from s tg index r\<close>: \<open>r\<close> is the first slot at or after \<open>index\<close> that is
  in use with the tag; \<open>none_from s tg index\<close>: no slot at or after \<open>index\<close> is.
\<close>

definition first_from :: "SceneManager \<Rightarrow> string \<Rightarrow> int \<Rightarrow> int \<Rightarrow> bool" where
  "first_from s tg index r \<longleftrightarrow>
     index \<le> r \<and> registered s r tg \<and> (\<forall>j. index \<le> j \<and> j < r \<longrightarrow> \<not> registered s j tg)"

definition none_from :: "SceneManager \<Rightarrow> string \<Rightarrow> int \<Rightarrow> bool" where
  "none_from s tg index \<longleftrightarrow> (\<forall>j. index \<le> j \<longrightarrow> \<not> registered s j tg)"

text \<open>The assignment of the five fields that \<open>FindMaterial\<close> makes on a match.\<close>

definition copy_fields :: "OBJECT_MATERIAL \<Rightarrow> OBJECT_MATERIAL \<Rightarrow> OBJECT_MATERIAL" where
  "copy_fields m material =
     material\<lparr>ambientColor := ambientColor m, ambientStrength := ambientStrength m,
              diffuseColor := diffuseColor m, specularColor := specularColor m,
              shininess := shininess m\<rparr>"

text \<open>The five uniform writes of \<open>SetShaderMaterial\<close> for a material.\<close>

definition material_writes :: "OBJECT_MATERIAL \<Rightarrow> (string \<times> uniform) list" where
  "material_writes m =
     [(''material.ambientColor'', UVec3 (ambientColor m)),
      (''material.ambientStrength'', UFloat (ambientStrength m)),
      (''material.diffuseColor'', UVec3 (diffuseColor m)),
      (''material.specularColor'', UVec3 (specularColor m)),
      (''material.shininess'', UFloat (shininess m))]"

section \<open>Example states\<close>

text \<open>
  A scene manager with a shader manager that has received nothing, an array of four
  texture records of which three are in use (two of them tagged \<open>bark\<close>), and two
  materials tagged \<open>shiny\<close>.
\<close>

definition shiny1 :: OBJECT_MATERIAL where
  "shiny1 = \<lparr>ambientColor = Vec3 0.2 0.2 0.2, ambientStrength = 0.4,
     diffuseColor = Vec3 0.3 0.3 0.2, specularColor = Vec3 0.3 0.3 0.3,
     shininess = 1, tag = ''shiny''\<rparr>"

definition shiny2 :: OBJECT_MATERIAL where
  "shiny2 = \<lparr>ambientColor = Vec3 1 1 1, ambientStrength = 2,
     diffuseColor = Vec3 1 1 1, specularColor = Vec3 1 1 1,
     shininess = 2, tag = ''shiny''\<rparr>"

definition stale :: OBJECT_MATERIAL where
  "stale = \<lparr>ambientColor = Vec3 9 9 9, ambientStrength = 9,
     diffuseColor = Vec3 9 9 9, specularColor = Vec3 9 9 9,
     shininess = 9, tag = []\<rparr>"

definition example_scene :: SceneManager where
  "example_scene =
     \<lparr>m_pShaderManager = Some [],
      m_loadedTextures = 3,
      m_textureIDs = [\<lparr>ID = 1, tex_tag = ''bark''\<rparr>, \<lparr>ID = 2, tex_tag = ''rock''\<rparr>,
                      \<lparr>ID = 3, tex_tag = ''bark''\<rparr>, \<lparr>ID = 0, tex_tag = []\<rparr>],
      m_objectMaterials = [shiny1, shiny2],
      gl_trace = [GlGenTextures 1, GlGenTextures 2, GlGenTextures 3]\<rparr>"

text \<open>The same scene manager constructed with a null shader manager.\<close>

definition detached_scene :: SceneManager where
  "detached_scene = example_scene\<lparr>m_pShaderManager := None\<rparr>"

text \<open>A registry whose only texture got the largest name a \<open>GLuint\<close> can hold.\<close>

definition top_name_scene :: SceneManager where
  "top_name_scene =
     \<lparr>m_pShaderManager = Some [],
      m_loadedTextures = 1,
      m_textureIDs = [\<lparr>ID = 0xFFFFFFFF, tex_tag = ''bark''\<rparr>, \<lparr>ID = 0, tex_tag = []\<rparr>],
      m_objectMaterials = [],
      gl_trace = [GlGenTextures 0xFFFFFFFF]\<rparr>"

text \<open>
  An environment in which \<open>bark.jpg\<close> decodes to three channels, \<open>leaves.png\<close> to
  four, \<open>mask.png\<close> to two and nothing else decodes, and in which \<open>glGenTextures\<close>
  hands out 1 plus the number of names it has generated so far.
\<close>

fun is_GlGenTextures :: "gl_call \<Rightarrow> bool" where
  "is_GlGenTextures (GlGenTextures n) = True"
| "is_GlGenTextures c = False"

definition example_env :: environment where
  "example_env =
     \<lparr>stbi_load = (\<lambda>f.
        if f = ''bark.jpg'' then Some \<lparr>width = 64, height = 32, colorChannels = 3\<rparr>
        else if f = ''leaves.png'' then Some \<lparr>width = 16, height = 16, colorChannels = 4\<rparr>
        else if f = ''mask.png'' then Some \<lparr>width = 8, height = 8, colorChannels = 2\<rparr>
        else None),
      gl_fresh_name = (\<lambda>tr. 1 + of_nat (length (filter is_GlGenTextures tr)))\<rparr>"

text \<open>A scene manager with room for four textures and none loaded.\<close>

definition empty_scene :: SceneManager where
  "empty_scene =
     \<lparr>m_pShaderManager = Some [],
      m_loadedTextures = 0,
      m_textureIDs = [\<lparr>ID = 0, tex_tag = []\<rparr>, \<lparr>ID = 0, tex_tag = []\<rparr>,
                      \<lparr>ID = 0, tex_tag = []\<rparr>, \<lparr>ID = 0, tex_tag = []\<rparr>],
      m_objectMaterials = [],
      gl_trace = []\<rparr>"

section \<open>Lemmas on the texture registry\<close>

declare FindTextureID_loop.simps [simp del]
declare FindTextureSlot_loop.simps [simp del]
declare FindMaterial_loop.simps [simp del]
declare DestroyGLTextures_loop.simps [simp del]

subsection \<open>Scanning the texture array\<close>

lemma FindTextureSlot_loop_found:
  "FindTextureSlot_loop s tg textureSlot index True = Inr textureSlot"
  by (simp add: FindTextureSlot_loop.simps)

lemma FindTextureID_loop_found:
  "FindTextureID_loop s tg textureID index True = Inr textureID"
  by (simp add: FindTextureID_loop.simps)

lemma first_from_here: "registered s index tg \<Longrightarrow> first_from s tg index index"
  by (auto simp: first_from_def)

lemma first_from_step:
  assumes "\<not> registered s index tg" and "first_from s tg (index + 1) r"
  shows "first_from s tg index r"
  unfolding first_from_def
proof (intro conjI allI impI)
  from assms(2) show "index \<le> r" by (simp add: first_from_def)
  from assms(2) show "registered s r tg" by (simp add: first_from_def)
  fix j assume j: "index \<le> j \<and> j < r"
  show "\<not> registered s j tg"
  proof (cases "j = index")
    case True with assms(1) show ?thesis by simp
  next
    case False
    with j have "index + 1 \<le> j \<and> j < r" by simp
    with assms(2) show ?thesis unfolding first_from_def by blast
  qed
qed

lemma none_from_step:
  assumes "\<not> registered s index tg" and "none_from s tg (index + 1)"
  shows "none_from s tg index"
  unfolding none_from_def
proof (intro allI impI)
  fix j :: int assume j: "index \<le> j"
  show "\<not> registered s j tg"
  proof (cases "j = index")
    case True with assms(1) show ?thesis by simp
  next
    case False
    with j have "index + 1 \<le> j" by simp
    with assms(2) show ?thesis unfolding none_from_def by blast
  qed
qed

lemma none_from_end: "\<not> index < m_loadedTextures s \<Longrightarrow> none_from s tg index"
  by (simp add: none_from_def registered_def)

lemma first_from_unique:
  assumes "first_from s tg index r" and "first_from s tg index r'"
  shows "r = r'"
proof (rule ccontr)
  assume "r \<noteq> r'"
  then consider "r < r'" | "r' < r" by linarith
  then show False
  proof cases
    case 1
    with assms show False unfolding first_from_def by blast
  next
    case 2
    with assms show False unfolding first_from_def by blast
  qed
qed

lemma first_from_not_none: "first_from s tg index r \<Longrightarrow> \<not> none_from s tg index"
  unfolding first_from_def none_from_def by blast

text \<open>
  The two loops walk the array in step: from the same index, either both stop at the
  first slot in use with the tag, or neither finds one and both keep their initial value.
\<close>

lemma Find_loops_scan:
  "bFound = False \<Longrightarrow> 0 \<le> index \<Longrightarrow> m_loadedTextures s \<le> int (length (m_textureIDs s)) \<Longrightarrow>
   (\<exists>r. first_from s tg index r
        \<and> FindTextureSlot_loop s tg textureSlot index bFound = Inr r
        \<and> FindTextureID_loop s tg textureID index bFound = Inr (sint (ID (m_textureIDs s ! nat r))))
   \<or> (none_from s tg index
        \<and> FindTextureSlot_loop s tg textureSlot index bFound = Inr textureSlot
        \<and> FindTextureID_loop s tg textureID index bFound = Inr textureID)"
proof (induction s tg textureSlot index bFound rule: FindTextureSlot_loop.induct)
  case (1 s tg textureSlot index bFound)
  show ?case
  proof (cases "index < m_loadedTextures s")
    case False
    have "FindTextureSlot_loop s tg textureSlot index bFound = Inr textureSlot"
      using False by (simp add: FindTextureSlot_loop.simps [of s tg textureSlot index])
    moreover have "FindTextureID_loop s tg textureID index bFound = Inr textureID"
      using False by (simp add: FindTextureID_loop.simps [of s tg textureID index])
    ultimately show ?thesis
      using none_from_end [OF False] by simp
  next
    case True
    with "1.prems" have inr: "0 \<le> index \<and> index < int (length (m_textureIDs s))"
      by simp
    show ?thesis
    proof (cases "tex_tag (m_textureIDs s ! nat index) = tg")
      case hit: True
      with True "1.prems" have reg: "registered s index tg"
        by (simp add: registered_def)
      have "FindTextureSlot_loop s tg textureSlot index bFound = Inr index"
        using True inr hit "1.prems"(1)
        by (simp add: FindTextureSlot_loop.simps [of s tg textureSlot index]
              FindTextureSlot_loop_found)
      moreover have "FindTextureID_loop s tg textureID index bFound =
          Inr (sint (ID (m_textureIDs s ! nat index)))"
        using True inr hit "1.prems"(1)
        by (simp add: FindTextureID_loop.simps [of s tg textureID index]
              FindTextureID_loop_found)
      ultimately show ?thesis
        using first_from_here [OF reg] by blast
    next
      case miss: False
      have slot: "FindTextureSlot_loop s tg textureSlot index bFound =
                  FindTextureSlot_loop s tg textureSlot (index + 1) bFound"
        using True inr miss "1.prems"(1)
        by (simp add: FindTextureSlot_loop.simps [of s tg textureSlot index])
      have ident: "FindTextureID_loop s tg textureID index bFound =
                   FindTextureID_loop s tg textureID (index + 1) bFound"
        using True inr miss "1.prems"(1)
        by (simp add: FindTextureID_loop.simps [of s tg textureID index])
      have nreg: "\<not> registered s index tg"
        using miss by (simp add: registered_def)
      have "(\<exists>r. first_from s tg (index + 1) r
              \<and> FindTextureSlot_loop s tg textureSlot (index + 1) bFound = Inr r
              \<and> FindTextureID_loop s tg textureID (index + 1) bFound =
                  Inr (sint (ID (m_textureIDs s ! nat r))))
          \<or> (none_from s tg (index + 1)
              \<and> FindTextureSlot_loop s tg textureSlot (index + 1) bFound = Inr textureSlot
              \<and> FindTextureID_loop s tg textureID (index + 1) bFound = Inr textureID)"
        using "1.IH"(2) True inr miss "1.prems" by simp
      then show ?thesis
        unfolding slot ident
        using first_from_step [OF nreg] none_from_step [OF nreg] by blast
    qed
  qed
qed

lemma Find_scan:
  assumes "m_loadedTextures s \<le> int (length (m_textureIDs s))"
  shows "(\<exists>r. first_from s tg 0 r \<and> FindTextureSlot s tg = Inr r
              \<and> FindTextureID s tg = Inr (sint (ID (m_textureIDs s ! nat r))))
         \<or> (none_from s tg 0 \<and> FindTextureSlot s tg = Inr (- 1) \<and> FindTextureID s tg = Inr (- 1))"
  unfolding FindTextureSlot_def FindTextureID_def
  using Find_loops_scan [of False 0 s tg "- 1" "- 1"] assms by simp

lemma first_from_0_iff:
  "first_from s tg 0 r \<longleftrightarrow> registered s r tg \<and> (\<forall>j. registered s j tg \<longrightarrow> r \<le> j)"
  unfolding first_from_def registered_def by (auto simp: not_less)

lemma none_from_0_iff: "none_from s tg 0 \<longleftrightarrow> (\<forall>i. \<not> registered s i tg)"
  unfolding none_from_def registered_def by auto

lemma sint_minus_1_only: "sint (w :: GLuint) = - 1 \<Longrightarrow> w = - 1"
  by (rule signed_word_eqI) simp

text \<open>No slot in use of the example scene carries the tag \<open>sky\<close>.\<close>

lemma example_scene_no_sky: "\<forall>i. \<not> registered example_scene i ''sky''"
proof
  fix i :: int
  show "\<not> registered example_scene i ''sky''"
  proof
    assume a: "registered example_scene i ''sky''"
    then have "0 \<le> i \<and> i < 3"
      by (simp add: registered_def example_scene_def)
    then have "i = 0 \<or> i = 1 \<or> i = 2"
      by arith
    then show False
    proof (elim disjE)
      assume "i = 0" with a show False by (simp add: registered_def example_scene_def)
    next
      assume "i = 1" with a show False by (simp add: registered_def example_scene_def)
    next
      assume "i = 2" with a show False by (simp add: registered_def example_scene_def)
    qed
  qed
qed

section \<open>Texture lookups\<close>


text \<open>
  C4. For a tag carried by a slot in use, \<open>FindTextureSlot\<close> returns the lowest such
  slot, which is the one registered first; for a tag carried by no slot in use it returns
  \<open>-1\<close>, and \<open>-1\<close> is never a slot in use. The lookup is a function of the state: it
  assigns to its locals only. The counter is assumed not to exceed the array's capacity.
\<close>

theorem FindTextureSlot_first_match:
  assumes "m_loadedTextures s \<le> int (length (m_textureIDs s))"
  shows "\<exists>r. FindTextureSlot s tg = Inr r
           \<and> ((\<exists>i. registered s i tg) \<longrightarrow>
                 registered s r tg \<and> (\<forall>j. registered s j tg \<longrightarrow> r \<le> j))
           \<and> ((\<forall>i. \<not> registered s i tg) \<longrightarrow> r = - 1)
           \<and> (\<forall>t. \<not> registered s (- 1) t)"
proof -
  have sentinel: "\<forall>t. \<not> registered s (- 1) t"
    by (simp add: registered_def)
  from Find_scan [OF assms, of tg] show ?thesis
  proof
    assume "\<exists>r. first_from s tg 0 r \<and> FindTextureSlot s tg = Inr r
              \<and> FindTextureID s tg = Inr (sint (ID (m_textureIDs s ! nat r)))"
    then obtain r where r: "first_from s tg 0 r" "FindTextureSlot s tg = Inr r"
      by blast
    from r(1) have "registered s r tg \<and> (\<forall>j. registered s j tg \<longrightarrow> r \<le> j)"
      by (simp add: first_from_0_iff)
    with r(2) sentinel show ?thesis by blast
  next
    assume "none_from s tg 0 \<and> FindTextureSlot s tg = Inr (- 1)
              \<and> FindTextureID s tg = Inr (- 1)"
    then have "\<forall>i. \<not> registered s i tg" and "FindTextureSlot s tg = Inr (- 1)"
      by (simp_all add: none_from_0_iff)
    with sentinel show ?thesis by blast
  qed
qed

theorem FindTextureSlot_first_match_witness:
  "m_loadedTextures example_scene \<le> int (length (m_textureIDs example_scene))
   \<and> registered example_scene 2 ''bark''
   \<and> FindTextureSlot example_scene ''bark'' = Inr 0
   \<and> FindTextureSlot example_scene ''sky'' = Inr (- 1)"
proof -
  have wf: "m_loadedTextures example_scene \<le> int (length (m_textureIDs example_scene))"
    by (simp add: example_scene_def)
  have reg0: "registered example_scene 0 ''bark''"
    by (simp add: registered_def example_scene_def)
  have reg2: "registered example_scene 2 ''bark''"
    by (simp add: registered_def example_scene_def)
  note nosky = example_scene_no_sky
  from FindTextureSlot_first_match [OF wf, of "''bark''"] reg0
  obtain r where r: "FindTextureSlot example_scene ''bark'' = Inr r"
      "registered example_scene r ''bark''" "\<forall>j. registered example_scene j ''bark'' \<longrightarrow> r \<le> j"
    by blast
  from r(3) reg0 have "r \<le> 0" by blast
  moreover from r(2) have "0 \<le> r" by (simp add: registered_def)
  ultimately have "r = 0" by simp
  moreover from FindTextureSlot_first_match [OF wf, of "''sky''"] nosky
  have "FindTextureSlot example_scene ''sky'' = Inr (- 1)" by blast
  ultimately show ?thesis using wf reg2 r(1) by simp
qed

text \<open>
  C10, as stated, fails: in \<open>top_name_scene\<close> the tag \<open>bark\<close> is registered in slot 0
  and \<open>FindTextureSlot\<close> returns 0, yet \<open>FindTextureID\<close> returns \<open>-1\<close>, since the
  stored name \<open>0xFFFFFFFF\<close> is returned as an \<open>int\<close>.
\<close>

theorem FindTextureID_minus_one_counterexample:
  "registered top_name_scene 0 ''bark''
   \<and> FindTextureSlot top_name_scene ''bark'' = Inr 0
   \<and> FindTextureID top_name_scene ''bark'' = Inr (- 1)"
  by (simp add: registered_def top_name_scene_def FindTextureSlot_def FindTextureID_def
        FindTextureSlot_loop.simps FindTextureID_loop.simps)

text \<open>
  C10, amended. With the counter within the array's capacity, both lookups return, and
  they select the same entry: \<open>FindTextureSlot\<close> returns a slot \<open>r \<ge> 0\<close> exactly when
  some slot in use carries the tag, \<open>r\<close> is then the first such slot and
  \<open>FindTextureID\<close> returns the name stored at \<open>r\<close>, converted to \<open>int\<close>. When no slot
  in use carries the tag both return \<open>-1\<close>; \<open>FindTextureSlot\<close> returns \<open>-1\<close> only
  then, and \<open>FindTextureID\<close> returns \<open>-1\<close> otherwise only for the stored name
  \<open>0xFFFFFFFF\<close>.
\<close>

theorem FindTextureID_agrees_with_FindTextureSlot:
  assumes "m_loadedTextures s \<le> int (length (m_textureIDs s))"
  shows "\<exists>r d. FindTextureSlot s tg = Inr r \<and> FindTextureID s tg = Inr d
           \<and> (0 \<le> r \<longleftrightarrow> (\<exists>i. registered s i tg))
           \<and> (0 \<le> r \<longrightarrow> registered s r tg \<and> (\<forall>j. registered s j tg \<longrightarrow> r \<le> j)
                        \<and> d = sint (ID (m_textureIDs s ! nat r)))
           \<and> (r = - 1 \<longleftrightarrow> (\<forall>i. \<not> registered s i tg))
           \<and> ((\<forall>i. \<not> registered s i tg) \<longrightarrow> d = - 1)
           \<and> (d = - 1 \<longrightarrow> (\<forall>i. \<not> registered s i tg) \<or> ID (m_textureIDs s ! nat r) = 0xFFFFFFFF)"
proof -
  from Find_scan [OF assms, of tg] show ?thesis
  proof
    assume "\<exists>r. first_from s tg 0 r \<and> FindTextureSlot s tg = Inr r
              \<and> FindTextureID s tg = Inr (sint (ID (m_textureIDs s ! nat r)))"
    then obtain r where r: "first_from s tg 0 r" "FindTextureSlot s tg = Inr r"
        "FindTextureID s tg = Inr (sint (ID (m_textureIDs s ! nat r)))"
      by blast
    from r(1) have first: "registered s r tg" "\<forall>j. registered s j tg \<longrightarrow> r \<le> j"
      by (simp_all add: first_from_0_iff)
    from first(1) have pos: "0 \<le> r" "r \<noteq> - 1"
      by (simp_all add: registered_def)
    have top: "ID (m_textureIDs s ! nat r) = 0xFFFFFFFF"
      if "sint (ID (m_textureIDs s ! nat r)) = - 1"
      using sint_minus_1_only [OF that] by simp
    show ?thesis
    proof (rule exI [of _ r], rule exI [of _ "sint (ID (m_textureIDs s ! nat r))"], intro conjI)
      show "FindTextureSlot s tg = Inr r" by (rule r(2))
      show "FindTextureID s tg = Inr (sint (ID (m_textureIDs s ! nat r)))" by (rule r(3))
      show "0 \<le> r \<longleftrightarrow> (\<exists>i. registered s i tg)" using pos(1) first(1) by blast
      show "0 \<le> r \<longrightarrow> registered s r tg \<and> (\<forall>j. registered s j tg \<longrightarrow> r \<le> j)
              \<and> sint (ID (m_textureIDs s ! nat r)) = sint (ID (m_textureIDs s ! nat r))"
        using first by simp
      show "r = - 1 \<longleftrightarrow> (\<forall>i. \<not> registered s i tg)" using pos(2) first(1) by blast
      show "(\<forall>i. \<not> registered s i tg) \<longrightarrow> sint (ID (m_textureIDs s ! nat r)) = - 1"
        using first(1) by blast
      show "sint (ID (m_textureIDs s ! nat r)) = - 1 \<longrightarrow>
              (\<forall>i. \<not> registered s i tg) \<or> ID (m_textureIDs s ! nat r) = 0xFFFFFFFF"
        using top by blast
    qed
  next
    assume "none_from s tg 0 \<and> FindTextureSlot s tg = Inr (- 1)
              \<and> FindTextureID s tg = Inr (- 1)"
    then have none: "\<forall>i. \<not> registered s i tg" and res: "FindTextureSlot s tg = Inr (- 1)"
        "FindTextureID s tg = Inr (- 1)"
      by (simp_all add: none_from_0_iff)
    show ?thesis
      using none res by (intro exI [of _ "- 1"]) simp
  qed
qed

theorem FindTextureID_agrees_with_FindTextureSlot_witness:
  "m_loadedTextures example_scene \<le> int (length (m_textureIDs example_scene))
   \<and> FindTextureSlot example_scene ''rock'' = Inr 1
   \<and> FindTextureID example_scene ''rock'' = Inr 2"
proof -
  have wf: "m_loadedTextures example_scene \<le> int (length (m_textureIDs example_scene))"
    by (simp add: example_scene_def)
  have reg1: "registered example_scene 1 ''rock''"
    by (simp add: registered_def example_scene_def)
  have only1: "i = 1" if "registered example_scene i ''rock''" for i
  proof -
    from that have "0 \<le> i \<and> i < 3"
      by (simp add: registered_def example_scene_def)
    then have "i = 0 \<or> i = 1 \<or> i = 2"
      by arith
    then show ?thesis
    proof (elim disjE)
      assume "i = 0" with that show ?thesis by (simp add: registered_def example_scene_def)
    next
      assume "i = 1" then show ?thesis .
    next
      assume "i = 2" with that show ?thesis by (simp add: registered_def example_scene_def)
    qed
  qed
  from FindTextureID_agrees_with_FindTextureSlot [OF wf, of "''rock''"]
  obtain r d where rd: "FindTextureSlot example_scene ''rock'' = Inr r"
      "FindTextureID example_scene ''rock'' = Inr d"
      "0 \<le> r \<longleftrightarrow> (\<exists>i. registered example_scene i ''rock'')"
      "0 \<le> r \<longrightarrow> registered example_scene r ''rock''
          \<and> (\<forall>j. registered example_scene j ''rock'' \<longrightarrow> r \<le> j)
          \<and> d = sint (ID (m_textureIDs example_scene ! nat r))"
    by blast
  from rd(3) reg1 have "0 \<le> r" by blast
  with rd(4) have "registered example_scene r ''rock''"
      and d: "d = sint (ID (m_textureIDs example_scene ! nat r))" by simp_all
  then have "r = 1" using only1 by blast
  with d have "d = 2" by (simp add: example_scene_def)
  with \<open>r = 1\<close> rd(1,2) wf show ?thesis by simp
qed

section \<open>Pushing a texture\<close>


text \<open>
  C9, as stated, fails: \<open>SetShaderTexture\<close> tests the pointer to the shader manager
  first, and with a null pointer it writes nothing, for a registered tag too.
\<close>

theorem SetShaderTexture_detached_counterexample:
  "registered detached_scene 0 ''bark''
   \<and> m_pShaderManager detached_scene = None
   \<and> SetShaderTexture detached_scene ''bark'' = Inr detached_scene"
  by (simp add: registered_def detached_scene_def example_scene_def SetShaderTexture_def)

text \<open>
  C9, amended. With the counter within the array's capacity \<open>SetShaderTexture\<close>
  returns normally for every tag. When a shader manager is attached it appends exactly
  two writes: \<open>bUseTexture\<close> set to 1 and \<open>objectTexture\<close> set to the slot that
  \<open>FindTextureSlot\<close> returns, which is \<open>-1\<close> when no slot in use carries the tag.
  When none is attached it changes nothing.
\<close>

theorem SetShaderTexture_writes:
  assumes "m_loadedTextures s \<le> int (length (m_textureIDs s))"
  shows "\<exists>slot. FindTextureSlot s tg = Inr slot
           \<and> ((\<forall>i. \<not> registered s i tg) \<longrightarrow> slot = - 1)
           \<and> SetShaderTexture s tg = Inr (case m_pShaderManager s of
                 Some sm \<Rightarrow> s\<lparr>m_pShaderManager := Some (sm @
                   [(''bUseTexture'', UInt 1), (''objectTexture'', USampler2D slot)])\<rparr>
               | None \<Rightarrow> s)"
proof -
  from Find_scan [OF assms, of tg]
  obtain slot where slot: "FindTextureSlot s tg = Inr slot"
      and miss: "(\<forall>i. \<not> registered s i tg) \<longrightarrow> slot = - 1"
    using first_from_not_none none_from_0_iff by blast
  have "SetShaderTexture s tg = Inr (case m_pShaderManager s of
          Some sm \<Rightarrow> s\<lparr>m_pShaderManager := Some (sm @
            [(''bUseTexture'', UInt 1), (''objectTexture'', USampler2D slot)])\<rparr>
        | None \<Rightarrow> s)"
    by (simp add: SetShaderTexture_def slot setIntValue_def setSampler2DValue_def
          g_UseTextureName_def g_TextureValueName_def split: option.split)
  with slot miss show ?thesis by blast
qed

theorem SetShaderTexture_writes_witness:
  "m_loadedTextures example_scene \<le> int (length (m_textureIDs example_scene))
   \<and> SetShaderTexture example_scene ''sky'' =
       Inr (example_scene\<lparr>m_pShaderManager := Some
         [(''bUseTexture'', UInt 1), (''objectTexture'', USampler2D (- 1))]\<rparr>)"
proof -
  have wf: "m_loadedTextures example_scene \<le> int (length (m_textureIDs example_scene))"
    by (simp add: example_scene_def)
  note nosky = example_scene_no_sky
  have sm: "m_pShaderManager example_scene = Some []"
    by (simp add: example_scene_def)
  from SetShaderTexture_writes [OF wf, of "''sky''"] nosky
  have "SetShaderTexture example_scene ''sky'' = Inr (case m_pShaderManager example_scene of
          Some sm \<Rightarrow> example_scene\<lparr>m_pShaderManager := Some (sm @
            [(''bUseTexture'', UInt 1), (''objectTexture'', USampler2D (- 1))])\<rparr>
        | None \<Rightarrow> example_scene)"
    by blast
  with wf sm show ?thesis by simp
qed

section \<open>Material lookups\<close>

lemma FindMaterial_loop_found:
  "FindMaterial_loop s tg material index True = material"
  by (simp add: FindMaterial_loop.simps)

text \<open>The loop computes the first entry with the tag, from \<open>index\<close> on.\<close>

lemma FindMaterial_loop_scan:
  "bFound = False \<Longrightarrow>
   FindMaterial_loop s tg material index bFound =
     (case find (\<lambda>m. tag m = tg) (drop index (m_objectMaterials s)) of
        None \<Rightarrow> material
      | Some m \<Rightarrow> copy_fields m material)"
proof (induction s tg material index bFound rule: FindMaterial_loop.induct)
  case (1 s tg material index bFound)
  show ?case
  proof (cases "index < length (m_objectMaterials s)")
    case False
    then show ?thesis
      by (simp add: FindMaterial_loop.simps [of s tg material index])
  next
    case True
    then have dr: "drop index (m_objectMaterials s) =
        m_objectMaterials s ! index # drop (Suc index) (m_objectMaterials s)"
      by (simp add: Cons_nth_drop_Suc)
    show ?thesis
    proof (cases "tag (m_objectMaterials s ! index) = tg")
      case hit: True
      then show ?thesis
        using True "1.prems"
        by (simp add: FindMaterial_loop.simps [of s tg material index] dr
              FindMaterial_loop_found copy_fields_def)
    next
      case miss: False
      have "FindMaterial_loop s tg material index bFound =
            FindMaterial_loop s tg material (index + 1) bFound"
        using True miss "1.prems"
        by (simp add: FindMaterial_loop.simps [of s tg material index])
      also have "\<dots> = (case find (\<lambda>m. tag m = tg) (drop (index + 1) (m_objectMaterials s)) of
                        None \<Rightarrow> material | Some m \<Rightarrow> copy_fields m material)"
        using "1.IH"(2) True miss "1.prems" by simp
      finally show ?thesis
        using miss by (simp add: dr)
    qed
  qed
qed

lemma FindMaterial_eq:
  "FindMaterial s tg material =
     (if m_objectMaterials s = [] then (False, material)
      else (True, case find (\<lambda>m. tag m = tg) (m_objectMaterials s) of
                    None \<Rightarrow> material
                  | Some m \<Rightarrow> copy_fields m material))"
  by (simp add: FindMaterial_def FindMaterial_loop_scan)

text \<open>
  What \<open>FindMaterial\<close> does for a tag that no entry bears: the caller's object is left
  as it was on every path, and the flag is \<open>false\<close> only for the empty vector.
\<close>

lemma FindMaterial_unknown_tag:
  assumes "\<forall>m \<in> set (m_objectMaterials s). tag m \<noteq> tg"
  shows "FindMaterial s tg material = (m_objectMaterials s \<noteq> [], material)"
proof -
  from assms have "find (\<lambda>m. tag m = tg) (m_objectMaterials s) = None"
    by (simp add: find_None_iff)
  then show ?thesis
    by (simp add: FindMaterial_eq)
qed

lemma find_append_first:
  "find P (xs @ ys) = (case find P xs of None \<Rightarrow> find P ys | Some x \<Rightarrow> Some x)"
  by (induction xs) simp_all

lemma materials_foldl_push_back:
  "m_objectMaterials (foldl push_back s ms) = m_objectMaterials s @ ms"
  by (induction ms arbitrary: s) (simp_all add: push_back_def)

text \<open>
  C1. A tag that was never defined should be reported as not found, with the caller's
  material untouched. \<open>FindMaterial\<close> does so for the empty registry only. For a
  registry that is not empty the loop ends without a match and the function returns the
  literal \<open>true\<close>: on the registry that \<open>DefineObjectMaterials\<close> builds, the tag
  \<open>metal\<close> was never defined, and the lookup reports it found, with the caller's
  object unchanged.
\<close>

theorem FindMaterial_unknown_tag_reported_found:
  "FindMaterial (DefineObjectMaterials empty_scene stale stale) ''metal'' stale = (True, stale)"
  by (simp add: FindMaterial_eq DefineObjectMaterials_def push_back_def empty_scene_def)

text \<open>
  For a tag that resolves, with a shader manager attached, \<open>SetShaderMaterial\<close>
  appends exactly the five fields of the first entry with the tag; for an empty registry
  it does nothing.
\<close>

lemma SetShaderMaterial_resolved:
  assumes "find (\<lambda>m. tag m = tg) (m_objectMaterials s) = Some m"
      and "m_pShaderManager s = Some sm"
  shows "SetShaderMaterial s material0 tg =
           Inr (s\<lparr>m_pShaderManager := Some (sm @ material_writes m)\<rparr>)"
proof -
  from assms(1) have ne: "m_objectMaterials s \<noteq> []" by auto
  then have "FindMaterial s tg material0 = (True, copy_fields m material0)"
    using assms(1) by (simp add: FindMaterial_eq)
  then show ?thesis
    using ne assms(2)
    by (simp add: SetShaderMaterial_def material_writes_def copy_fields_def
          setVec3Value_def setFloatValue_def)
qed

lemma SetShaderMaterial_empty:
  "m_objectMaterials s = [] \<Longrightarrow> SetShaderMaterial s material0 tg = Inr s"
  by (simp add: SetShaderMaterial_def)

text \<open>
  C2. For a tag that does not resolve, \<open>SetShaderMaterial\<close> should write none of
  the five material uniforms. When the registry is not empty it writes them all the same,
  since \<open>FindMaterial\<close> returned \<open>true\<close>: the values are those of the local
  \<open>material\<close>, which nothing has initialised. On the registry that
  \<open>DefineObjectMaterials\<close> builds, the tag \<open>metal\<close> is undefined and five writes
  reach the shader manager.
\<close>

theorem SetShaderMaterial_unknown_tag_writes:
  "SetShaderMaterial (DefineObjectMaterials empty_scene stale stale) stale ''metal'' =
     Inr ((DefineObjectMaterials empty_scene stale stale)
            \<lparr>m_pShaderManager := Some (material_writes stale)\<rparr>)"
  by (simp add: SetShaderMaterial_def FindMaterial_eq material_writes_def
        setVec3Value_def setFloatValue_def DefineObjectMaterials_def push_back_def
        empty_scene_def)

text \<open>
  C6. Let a material \<open>m1\<close> be appended to a registry that has no entry with its tag,
  then any materials \<open>mid\<close>, then a material \<open>m2\<close> with the tag of \<open>m1\<close>, then any
  materials \<open>post\<close>. A lookup of that tag copies the five fields of \<open>m1\<close>, and no
  lookup of any tag can tell the registry from the one built without \<open>m2\<close>.
\<close>

theorem FindMaterial_first_inserted_wins:
  assumes "tag m2 = tag m1"
      and "\<forall>m \<in> set (m_objectMaterials s0). tag m \<noteq> tag m1"
  shows "FindMaterial
           (foldl push_back (push_back (foldl push_back (push_back s0 m1) mid) m2) post)
           (tag m1) material
         = (True, copy_fields m1 material)
       \<and> (\<forall>t mat. FindMaterial
             (foldl push_back (push_back (foldl push_back (push_back s0 m1) mid) m2) post) t mat
           = FindMaterial (foldl push_back (foldl push_back (push_back s0 m1) mid) post) t mat)"
proof -
  let ?with = "foldl push_back (push_back (foldl push_back (push_back s0 m1) mid) m2) post"
  let ?without = "foldl push_back (foldl push_back (push_back s0 m1) mid) post"
  have w: "m_objectMaterials ?with = m_objectMaterials s0 @ [m1] @ mid @ [m2] @ post"
    by (simp add: materials_foldl_push_back push_back_def)
  have wo: "m_objectMaterials ?without = m_objectMaterials s0 @ [m1] @ mid @ post"
    by (simp add: materials_foldl_push_back push_back_def)
  from assms(2) have pre: "find (\<lambda>m. tag m = tag m1) (m_objectMaterials s0) = None"
    by (simp add: find_None_iff)
  have first: "FindMaterial ?with (tag m1) material = (True, copy_fields m1 material)"
    by (simp add: FindMaterial_eq w find_append_first pre)
  have same: "FindMaterial ?with t mat = FindMaterial ?without t mat" for t mat
  proof (cases "tag m1 = t")
    case True
    then show ?thesis
      by (simp add: FindMaterial_eq w wo find_append_first split: option.split)
  next
    case False
    with assms(1) have "tag m2 \<noteq> t" by simp
    then show ?thesis
      by (simp add: FindMaterial_eq w wo find_append_first split: option.split)
  qed
  from first same show ?thesis by blast
qed

theorem FindMaterial_first_inserted_wins_witness:
  "tag shiny2 = tag shiny1
   \<and> m_objectMaterials empty_scene = []
   \<and> FindMaterial (push_back (push_back empty_scene shiny1) shiny2) ''shiny'' stale
       = (True, stale\<lparr>ambientColor := Vec3 0.2 0.2 0.2, ambientStrength := 0.4,
            diffuseColor := Vec3 0.3 0.3 0.2, specularColor := Vec3 0.3 0.3 0.3,
            shininess := 1\<rparr>)"
proof -
  have h1: "tag shiny2 = tag shiny1"
    by (simp add: shiny1_def shiny2_def)
  have none: "m_objectMaterials empty_scene = []"
    by (simp add: empty_scene_def)
  then have h2: "\<forall>m \<in> set (m_objectMaterials empty_scene). tag m \<noteq> tag shiny1"
    by simp
  from FindMaterial_first_inserted_wins [OF h1 h2, of "[]" "[]" stale, THEN conjunct1]
  have "FindMaterial (push_back (push_back empty_scene shiny1) shiny2) (tag shiny1) stale
          = (True, copy_fields shiny1 stale)"
    by simp
  then have "FindMaterial (push_back (push_back empty_scene shiny1) shiny2) ''shiny'' stale
       = (True, stale\<lparr>ambientColor := Vec3 0.2 0.2 0.2, ambientStrength := 0.4,
            diffuseColor := Vec3 0.3 0.3 0.2, specularColor := Vec3 0.3 0.3 0.3,
            shininess := 1\<rparr>)"
    by (simp add: copy_fields_def shiny1_def)
  with h1 none show ?thesis by blast
qed

text \<open>
  The six tags of \<open>DefineObjectMaterials\<close> are distinct, so on a registry that was empty
  each of them resolves to its own entry.
\<close>

lemma DefineObjectMaterials_tags:
  "m_objectMaterials s = [] \<Longrightarrow>
   map tag (m_objectMaterials (DefineObjectMaterials s grass0 wood0)) =
     [''shiny'', ''grass'', ''wood'', ''sun'', ''rough'', ''shade'']"
  by (simp add: DefineObjectMaterials_def push_back_def)

section \<open>Loading a texture\<close>

text \<open>
  C5. \<open>CreateGLTexture\<close> returns \<open>true\<close> exactly when the decoder returns an image
  with 3 or 4 channels. It then stores the tag and the new name at the slot numbered by
  the counter and adds one to the counter, so that from a counter of 0 the successful
  loads take the slots 0, 1, 2, ... in their order; the slots below keep their entries.
  This needs a free slot: the counter must lie within the array. In every other case it
  returns \<open>false\<close> and the array, the counter, the materials and the shader manager
  are as before.
\<close>

theorem CreateGLTexture_outcome:
  "(\<forall>img. stbi_load env filename = Some img
        \<longrightarrow> (colorChannels img = 3 \<or> colorChannels img = 4)
        \<longrightarrow> 0 \<le> m_loadedTextures s \<and> m_loadedTextures s < int (length (m_textureIDs s))
        \<longrightarrow> (\<exists>s'. CreateGLTexture env s filename tg = Inr (True, s')
              \<and> m_loadedTextures s' = m_loadedTextures s + 1
              \<and> registered s' (m_loadedTextures s) tg
              \<and> m_textureIDs s' = (m_textureIDs s)[nat (m_loadedTextures s) :=
                   \<lparr>ID = gl_fresh_name env (gl_trace s @ [StbiSetFlipVerticallyOnLoad True]),
                    tex_tag = tg\<rparr>]
              \<and> (\<forall>i t. registered s i t \<longrightarrow> registered s' i t)))
   \<and> ((\<forall>img. stbi_load env filename = Some img
          \<longrightarrow> colorChannels img \<noteq> 3 \<and> colorChannels img \<noteq> 4)
        \<longrightarrow> (\<exists>s'. CreateGLTexture env s filename tg = Inr (False, s')
              \<and> m_loadedTextures s' = m_loadedTextures s
              \<and> m_textureIDs s' = m_textureIDs s
              \<and> m_objectMaterials s' = m_objectMaterials s
              \<and> m_pShaderManager s' = m_pShaderManager s))"
proof (intro conjI allI impI)
  fix img
  assume load: "stbi_load env filename = Some img"
    and ch: "colorChannels img = 3 \<or> colorChannels img = 4"
    and room: "0 \<le> m_loadedTextures s \<and> m_loadedTextures s < int (length (m_textureIDs s))"
  define fmt where "fmt = (if colorChannels img = 3 then GL_RGB8_RGB else GL_RGBA8_RGBA)"
  define n where "n = gl_fresh_name env (gl_trace s @ [StbiSetFlipVerticallyOnLoad True])"
  define s' where "s' = s\<lparr>gl_trace := gl_trace s @
      [StbiSetFlipVerticallyOnLoad True, GlGenTextures n, GlBindTexture n,
       GlTexParameteri ''GL_TEXTURE_WRAP_S'' ''GL_REPEAT'',
       GlTexParameteri ''GL_TEXTURE_WRAP_T'' ''GL_REPEAT'',
       GlTexParameteri ''GL_TEXTURE_MIN_FILTER'' ''GL_LINEAR'',
       GlTexParameteri ''GL_TEXTURE_MAG_FILTER'' ''GL_LINEAR'',
       GlTexImage2D fmt (width img) (height img), GlGenerateMipmap, StbiImageFree,
       GlBindTexture 0],
     m_textureIDs := (m_textureIDs s)[nat (m_loadedTextures s) := \<lparr>ID = n, tex_tag = tg\<rparr>],
     m_loadedTextures := m_loadedTextures s + 1\<rparr>"
  have run: "CreateGLTexture env s filename tg = Inr (True, s')"
    using load ch room
    by (auto simp: CreateGLTexture_def Let_def s'_def n_def fmt_def)
  have cnt: "m_loadedTextures s' = m_loadedTextures s + 1"
    by (simp add: s'_def)
  have arr: "m_textureIDs s' =
      (m_textureIDs s)[nat (m_loadedTextures s) := \<lparr>ID = n, tex_tag = tg\<rparr>]"
    by (simp add: s'_def)
  have idx: "nat (m_loadedTextures s) < length (m_textureIDs s)"
    using room by linarith
  have new: "registered s' (m_loadedTextures s) tg"
    using room idx by (simp add: registered_def cnt arr)
  have old: "registered s' i t" if "registered s i t" for i t
  proof -
    from that have "0 \<le> i" "i < m_loadedTextures s"
      by (simp_all add: registered_def)
    then have "nat i \<noteq> nat (m_loadedTextures s)" by simp
    with that show ?thesis
      by (simp add: registered_def cnt arr)
  qed
  show "\<exists>s'. CreateGLTexture env s filename tg = Inr (True, s')
          \<and> m_loadedTextures s' = m_loadedTextures s + 1
          \<and> registered s' (m_loadedTextures s) tg
          \<and> m_textureIDs s' = (m_textureIDs s)[nat (m_loadedTextures s) :=
               \<lparr>ID = gl_fresh_name env (gl_trace s @ [StbiSetFlipVerticallyOnLoad True]),
                tex_tag = tg\<rparr>]
          \<and> (\<forall>i t. registered s i t \<longrightarrow> registered s' i t)"
    using run cnt new arr old unfolding n_def by blast
next
  assume bad: "\<forall>img. stbi_load env filename = Some img
          \<longrightarrow> colorChannels img \<noteq> 3 \<and> colorChannels img \<noteq> 4"
  show "\<exists>s'. CreateGLTexture env s filename tg = Inr (False, s')
          \<and> m_loadedTextures s' = m_loadedTextures s
          \<and> m_textureIDs s' = m_textureIDs s
          \<and> m_objectMaterials s' = m_objectMaterials s
          \<and> m_pShaderManager s' = m_pShaderManager s"
  proof (cases "stbi_load env filename")
    case None
    then show ?thesis
      by (simp add: CreateGLTexture_def)
  next
    case (Some img)
    with bad have "colorChannels img \<noteq> 3" "colorChannels img \<noteq> 4" by simp_all
    with Some show ?thesis
      by (simp add: CreateGLTexture_def Let_def)
  qed
qed

theorem CreateGLTexture_outcome_witness:
  "stbi_load example_env ''bark.jpg'' = Some \<lparr>width = 64, height = 32, colorChannels = 3\<rparr>
   \<and> 0 \<le> m_loadedTextures empty_scene
   \<and> m_loadedTextures empty_scene < int (length (m_textureIDs empty_scene))
   \<and> (\<exists>s'. CreateGLTexture example_env empty_scene ''bark.jpg'' ''bark'' = Inr (True, s')
          \<and> m_loadedTextures s' = 1 \<and> registered s' 0 ''bark'')
   \<and> stbi_load example_env ''mask.png'' = Some \<lparr>width = 8, height = 8, colorChannels = 2\<rparr>
   \<and> (\<exists>s'. CreateGLTexture example_env empty_scene ''mask.png'' ''mask'' = Inr (False, s')
          \<and> m_loadedTextures s' = 0)"
proof -
  have mask: "stbi_load example_env ''mask.png'' =
      Some \<lparr>width = 8, height = 8, colorChannels = 2\<rparr>"
    by (simp add: example_env_def)
  have load: "stbi_load example_env ''bark.jpg'' =
      Some \<lparr>width = 64, height = 32, colorChannels = 3\<rparr>"
    by (simp add: example_env_def)
  have ch: "colorChannels \<lparr>width = 64, height = 32, colorChannels = 3\<rparr> = 3
      \<or> colorChannels \<lparr>width = 64, height = 32, colorChannels = 3\<rparr> = 4"
    by simp
  have room: "0 \<le> m_loadedTextures empty_scene
      \<and> m_loadedTextures empty_scene < int (length (m_textureIDs empty_scene))"
    by (simp add: empty_scene_def)
  have zero: "m_loadedTextures empty_scene = 0"
    by (simp add: empty_scene_def)
  have bad: "\<forall>img. stbi_load example_env ''mask.png'' = Some img
          \<longrightarrow> colorChannels img \<noteq> 3 \<and> colorChannels img \<noteq> 4"
    by (simp add: example_env_def)
  note out = CreateGLTexture_outcome [of example_env _ empty_scene]
  from out [of "''bark.jpg''" "''bark''", THEN conjunct1, rule_format, OF load ch room]
  have ok: "\<exists>s'. CreateGLTexture example_env empty_scene ''bark.jpg'' ''bark'' = Inr (True, s')
          \<and> m_loadedTextures s' = 1 \<and> registered s' 0 ''bark''"
    unfolding zero by auto
  from out [of "''mask.png''" "''mask''", THEN conjunct2, THEN mp, OF bad]
  have ko: "\<exists>s'. CreateGLTexture example_env empty_scene ''mask.png'' ''mask'' = Inr (False, s')
          \<and> m_loadedTextures s' = 0"
    unfolding zero by auto
  from load room ok mask ko show ?thesis by blast
qed

text \<open>
  The converse direction of "exactly": whenever the function returns \<open>true\<close> the file
  decoded to 3 or 4 channels.
\<close>

lemma CreateGLTexture_true_only:
  assumes "CreateGLTexture env s filename tg = Inr (True, s')"
  shows "\<exists>img. stbi_load env filename = Some img
           \<and> (colorChannels img = 3 \<or> colorChannels img = 4)"
  using assms
  by (auto simp: CreateGLTexture_def Let_def split: option.splits if_splits)

text \<open>
  After a successful load of a tag that no slot in use carried, the tag resolves to the
  slot that was next: the value of the counter before the load.
\<close>

lemma CreateGLTexture_then_FindTextureSlot:
  assumes "CreateGLTexture env s filename tg = Inr (True, s')"
      and "\<forall>i. \<not> registered s i tg"
  shows "FindTextureSlot s' tg = Inr (m_loadedTextures s)"
proof -
  from assms(1) have room: "0 \<le> m_loadedTextures s"
      "m_loadedTextures s < int (length (m_textureIDs s))"
    and cnt: "m_loadedTextures s' = m_loadedTextures s + 1"
    and arr: "\<exists>n. m_textureIDs s' =
        (m_textureIDs s)[nat (m_loadedTextures s) := \<lparr>ID = n, tex_tag = tg\<rparr>]"
    by (auto simp: CreateGLTexture_def Let_def split: option.splits if_splits)
  from arr obtain n where arr': "m_textureIDs s' =
      (m_textureIDs s)[nat (m_loadedTextures s) := \<lparr>ID = n, tex_tag = tg\<rparr>]"
    by blast
  have idx: "nat (m_loadedTextures s) < length (m_textureIDs s)"
    using room by linarith
  have new: "registered s' (m_loadedTextures s) tg"
    using room idx by (simp add: registered_def cnt arr')
  have wf: "m_loadedTextures s' \<le> int (length (m_textureIDs s'))"
    using room by (simp add: cnt arr')
  have low: "\<not> registered s' j tg" if "j < m_loadedTextures s" for j
  proof
    assume a: "registered s' j tg"
    then have "0 \<le> j" by (simp add: registered_def)
    with that have "nat j \<noteq> nat (m_loadedTextures s)" by simp
    with a that have "registered s j tg"
      by (simp add: registered_def arr')
    with assms(2) show False by blast
  qed
  from Find_scan [OF wf, of tg] show ?thesis
  proof
    assume "\<exists>r. first_from s' tg 0 r \<and> FindTextureSlot s' tg = Inr r
              \<and> FindTextureID s' tg = Inr (sint (ID (m_textureIDs s' ! nat r)))"
    then obtain r where r: "first_from s' tg 0 r" "FindTextureSlot s' tg = Inr r"
      by blast
    from r(1) have "registered s' r tg" "\<forall>j. registered s' j tg \<longrightarrow> r \<le> j"
      by (simp_all add: first_from_0_iff)
    with new low have "r = m_loadedTextures s"
      by (metis linorder_not_less order_antisym)
    with r(2) show ?thesis by simp
  next
    assume "none_from s' tg 0 \<and> FindTextureSlot s' tg = Inr (- 1)
              \<and> FindTextureID s' tg = Inr (- 1)"
    then have "\<forall>i. \<not> registered s' i tg" by (simp add: none_from_0_iff)
    with new show ?thesis by blast
  qed
qed

section \<open>Teardown\<close>

text \<open>With no texture loaded the loop body never runs and nothing changes.\<close>

lemma DestroyGLTextures_none_loaded:
  "m_loadedTextures s \<le> 0 \<Longrightarrow> DestroyGLTextures env s = Inr s"
  by (simp add: DestroyGLTextures_def DestroyGLTextures_loop.simps)

text \<open>
  Whatever the registry holds, teardown deletes nothing: every name that was allocated
  before is allocated after.
\<close>

lemma gl_allocated_append:
  "gl_allocated (cs @ ds) live = gl_allocated ds (gl_allocated cs live)"
  by (induction cs live rule: gl_allocated.induct) simp_all

lemma DestroyGLTextures_loop_keeps_names:
  "DestroyGLTextures_loop env s i = Inr s' \<Longrightarrow>
   set (gl_allocated (gl_trace s) []) \<subseteq> set (gl_allocated (gl_trace s') [])"
proof (induction env s i rule: DestroyGLTextures_loop.induct)
  case (1 env s i)
  show ?case
  proof (cases "i < m_loadedTextures s")
    case False
    with "1.prems" show ?thesis
      by (simp add: DestroyGLTextures_loop.simps [of env s i])
  next
    case True
    show ?thesis
    proof (cases "0 \<le> i \<and> i < int (length (m_textureIDs s))")
      case False
      with True "1.prems" show ?thesis
        by (simp add: DestroyGLTextures_loop.simps [of env s i])
    next
      case inr: True
      define n where "n = gl_fresh_name env (gl_trace s)"
      define s1 where "s1 = s\<lparr>gl_trace := gl_trace s @ [GlGenTextures n],
          m_textureIDs := (m_textureIDs s)[nat i := (m_textureIDs s ! nat i)\<lparr>ID := n\<rparr>]\<rparr>"
      have step: "DestroyGLTextures_loop env s i = DestroyGLTextures_loop env s1 (i + 1)"
        using True inr
        by (simp add: DestroyGLTextures_loop.simps [of env s i] Let_def s1_def n_def)
      with "1.prems" have "DestroyGLTextures_loop env s1 (i + 1) = Inr s'" by simp
      with "1.IH" [OF True inr n_def] have
        "set (gl_allocated (gl_trace s1) []) \<subseteq> set (gl_allocated (gl_trace s') [])"
        by (simp add: s1_def)
      moreover have "set (gl_allocated (gl_trace s) []) \<subseteq> set (gl_allocated (gl_trace s1) [])"
        by (auto simp: s1_def gl_allocated_append)
      ultimately show ?thesis by blast
    qed
  qed
qed

lemma DestroyGLTextures_keeps_names:
  "DestroyGLTextures env s = Inr s' \<Longrightarrow>
   set (gl_allocated (gl_trace s) []) \<subseteq> set (gl_allocated (gl_trace s') [])"
  unfolding DestroyGLTextures_def by (rule DestroyGLTextures_loop_keeps_names)

text \<open>
  C7. Teardown should release the GPU handle of every registered texture.
  \<open>DestroyGLTextures\<close> releases none: with three textures registered under the names
  1, 2 and 3 it makes three calls of \<open>glGenTextures\<close> and none of
  \<open>glDeleteTextures\<close>, so the three names are still allocated afterwards, three more
  are allocated with them, and the registry now stores the new names.
\<close>

theorem DestroyGLTextures_releases_nothing:
  "DestroyGLTextures example_env example_scene =
     Inr (example_scene\<lparr>
       gl_trace := [GlGenTextures 1, GlGenTextures 2, GlGenTextures 3,
                    GlGenTextures 4, GlGenTextures 5, GlGenTextures 6],
       m_textureIDs := [\<lparr>ID = 4, tex_tag = ''bark''\<rparr>, \<lparr>ID = 5, tex_tag = ''rock''\<rparr>,
                        \<lparr>ID = 6, tex_tag = ''bark''\<rparr>, \<lparr>ID = 0, tex_tag = []\<rparr>]\<rparr>)
   \<and> gl_allocated [GlGenTextures 1, GlGenTextures 2, GlGenTextures 3] [] = [1, 2, 3]
   \<and> gl_allocated [GlGenTextures 1, GlGenTextures 2, GlGenTextures 3,
                    GlGenTextures 4, GlGenTextures 5, GlGenTextures 6] []
       = [1, 2, 3, 4, 5, 6]"
  by (simp add: DestroyGLTextures_def DestroyGLTextures_loop.simps example_scene_def
        example_env_def Let_def)

section \<open>Uniform names\<close>

text \<open>
  C8. Every field of light \<open>i\<close> should be written under the name
  \<open>lightSources[i].<field>\<close>. These are the names that \<open>SetupSceneLights\<close> writes,
  in order: the ambient colour of the first light goes to
  \<open>lightSorces[0].ambientColor\<close>, and the name \<open>lightSources[0].ambientColor\<close> is
  never written.
\<close>

theorem SetupSceneLights_names:
  "SetupSceneLights example_scene =
     Inr (example_scene\<lparr>m_pShaderManager := Some (foldl (\<lambda>sm call. call sm) [] SetupSceneLights_calls)\<rparr>)
   \<and> map fst (foldl (\<lambda>sm call. call sm) [] SetupSceneLights_calls) =
     [''bUseLighting'', ''globalAmbientColor'',
      ''lightSources[0].position'', ''lightSorces[0].ambientColor'',
      ''lightSources[0].diffuseColor'', ''lightSources[0].specularColor'',
      ''lightSources[0].focalStrength'', ''lightSources[0].specularIntensity'',
      ''lightSources[1].position'', ''lightSources[1].ambientColor'',
      ''lightSources[1].diffuseColor'', ''lightSources[1].specularColor'',
      ''lightSources[1].focalStrength'', ''lightSources[1].specularIntensity'',
      ''lightSources[2].position'', ''lightSources[2].diffuseColor'',
      ''lightSources[2].specularColor'', ''lightSources[2].focalStrength'',
      ''lightSources[2].specularIntensity'',
      ''lightSources[3].position'', ''lightSources[3].diffuseColor'',
      ''lightSources[3].specularColor'', ''lightSources[3].focalStrength'',
      ''lightSources[3].specularIntensity'']
   \<and> ''lightSources[0].ambientColor''
       \<notin> set (map fst (foldl (\<lambda>sm call. call sm) [] SetupSceneLights_calls))"
  by (simp add: SetupSceneLights_def SetupSceneLights_calls_def example_scene_def
        setBoolValue_def setVec3Value_def setFloatValue_def g_UseLightingName_def)

section \<open>Composition of the model matrix\<close>

text \<open>The product of matrices acts on a column vector as the factors do in turn.\<close>

lemma mat4_times_vec4_assoc:
  "mat4_times_vec4 (mat4_times A B) v = mat4_times_vec4 A (mat4_times_vec4 B v)"
proof (cases A)
  case (Mat4 a0 a1 a2 a3)
  show ?thesis
  proof (cases B)
    case B: (Mat4 b0 b1 b2 b3)
    show ?thesis
      by (cases v; cases a0; cases a1; cases a2; cases a3; cases b0; cases b1; cases b2; cases b3)
         (simp add: Mat4 B algebra_simps)
  qed
qed

text \<open>The GLM builders give the textbook matrices.\<close>

lemma glm_scale_eq: "glm_scale v = Scale v"
  by (cases v) (simp add: glm_scale_def Scale_def mat4_identity_def)

lemma glm_translate_eq: "glm_translate v = Translation v"
  by (cases v) (simp add: glm_translate_def Translation_def mat4_identity_def)

lemma glm_rotate_X: "glm_rotate a (Vec3 1 0 0) = RotationX a"
  by (simp add: glm_rotate_def RotationX_def mat4_identity_def Let_def)

lemma glm_rotate_Y: "glm_rotate a (Vec3 0 1 0) = RotationY a"
  by (simp add: glm_rotate_def RotationY_def mat4_identity_def Let_def)

lemma glm_rotate_Z: "glm_rotate a (Vec3 0 0 1) = RotationZ a"
  by (simp add: glm_rotate_def RotationZ_def mat4_identity_def Let_def)

text \<open>What each textbook matrix does to a point \<open>(x, y, z, 1)\<close>.\<close>

lemma Scale_point:
  "mat4_times_vec4 (Scale (Vec3 sx sy sz)) (Vec4 x y z 1) = Vec4 (sx * x) (sy * y) (sz * z) 1"
  by (simp add: Scale_def)

lemma RotationX_point:
  "mat4_times_vec4 (RotationX a) (Vec4 x y z 1) =
     Vec4 x (cos a * y - sin a * z) (sin a * y + cos a * z) 1"
  by (simp add: RotationX_def)

lemma RotationY_point:
  "mat4_times_vec4 (RotationY a) (Vec4 x y z 1) =
     Vec4 (cos a * x + sin a * z) y (cos a * z - sin a * x) 1"
  by (simp add: RotationY_def)

lemma RotationZ_point:
  "mat4_times_vec4 (RotationZ a) (Vec4 x y z 1) =
     Vec4 (cos a * x - sin a * y) (sin a * x + cos a * y) z 1"
  by (simp add: RotationZ_def)

lemma Translation_point:
  "mat4_times_vec4 (Translation (Vec3 px py pz)) (Vec4 x y z 1) =
     Vec4 (x + px) (y + py) (z + pz) 1"
  by (simp add: Translation_def)

text \<open>
  C3. When a shader manager is attached, \<open>SetTransformations\<close> appends one write, of
  the uniform \<open>model\<close>, whose value is the product Translation \<open>\<times>\<close> RotationZ \<open>\<times>\<close>
  RotationY \<open>\<times>\<close> RotationX \<open>\<times>\<close> Scale of the textbook matrices, the three angles
  being the arguments in degrees times \<open>\<pi>/180\<close>; with none attached it writes nothing.
  Applied to a column vector, this product scales first, then rotates about X, then
  about Y, then about Z, and translates last.
\<close>

theorem SetTransformations_composition:
  "SetTransformations s scaleXYZ xdeg ydeg zdeg positionXYZ =
     (case m_pShaderManager s of
        Some sm \<Rightarrow> s\<lparr>m_pShaderManager := Some (sm @ [(''model'', UMat4
          (mat4_times (mat4_times (mat4_times (mat4_times
             (Translation positionXYZ) (RotationZ (zdeg * pi / 180)))
             (RotationY (ydeg * pi / 180))) (RotationX (xdeg * pi / 180)))
             (Scale scaleXYZ)))])\<rparr>
      | None \<Rightarrow> s)
   \<and> mat4_times_vec4
        (mat4_times (mat4_times (mat4_times (mat4_times
           (Translation positionXYZ) (RotationZ (zdeg * pi / 180)))
           (RotationY (ydeg * pi / 180))) (RotationX (xdeg * pi / 180)))
           (Scale scaleXYZ)) v
     = mat4_times_vec4 (Translation positionXYZ)
         (mat4_times_vec4 (RotationZ (zdeg * pi / 180))
           (mat4_times_vec4 (RotationY (ydeg * pi / 180))
             (mat4_times_vec4 (RotationX (xdeg * pi / 180))
               (mat4_times_vec4 (Scale scaleXYZ) v))))"
proof
  show "SetTransformations s scaleXYZ xdeg ydeg zdeg positionXYZ =
     (case m_pShaderManager s of
        Some sm \<Rightarrow> s\<lparr>m_pShaderManager := Some (sm @ [(''model'', UMat4
          (mat4_times (mat4_times (mat4_times (mat4_times
             (Translation positionXYZ) (RotationZ (zdeg * pi / 180)))
             (RotationY (ydeg * pi / 180))) (RotationX (xdeg * pi / 180)))
             (Scale scaleXYZ)))])\<rparr>
      | None \<Rightarrow> s)"
    unfolding SetTransformations_def Let_def glm_scale_eq glm_translate_eq
      glm_rotate_X glm_rotate_Y glm_rotate_Z
    by (simp add: setMat4Value_def g_ModelName_def glm_radians_def split: option.split)
  show "mat4_times_vec4
        (mat4_times (mat4_times (mat4_times (mat4_times
           (Translation positionXYZ) (RotationZ (zdeg * pi / 180)))
           (RotationY (ydeg * pi / 180))) (RotationX (xdeg * pi / 180)))
           (Scale scaleXYZ)) v
     = mat4_times_vec4 (Translation positionXYZ)
         (mat4_times_vec4 (RotationZ (zdeg * pi / 180))
           (mat4_times_vec4 (RotationY (ydeg * pi / 180))
             (mat4_times_vec4 (RotationX (xdeg * pi / 180))
               (mat4_times_vec4 (Scale scaleXYZ) v))))"
    by (simp only: mat4_times_vec4_assoc)
qed

text \<open>
  The example of the specification: scale \<open>(2,1,1)\<close>, a rotation of 90 degrees about Y
  and the position \<open>(5,0,0)\<close> take the point \<open>(1,0,0)\<close> to \<open>(5,0,-2)\<close>.
\<close>

lemma SetTransformations_example:
  "mat4_times_vec4
     (mat4_times (mat4_times (mat4_times (mat4_times
        (Translation (Vec3 5 0 0)) (RotationZ (0 * pi / 180)))
        (RotationY (90 * pi / 180))) (RotationX (0 * pi / 180)))
        (Scale (Vec3 2 1 1))) (Vec4 1 0 0 1)
   = Vec4 5 0 (- 2) 1"
proof -
  have half: "90 * pi / 180 = pi / 2" by simp
  show ?thesis
    unfolding mat4_times_vec4_assoc half
    by (simp add: Scale_point RotationX_point RotationY_point RotationZ_point Translation_point)
qed

end
